theory Spec2Isabelle
  imports Complex_Main
begin

section \<open>Python and numpy arithmetic used by \<open>solow_model.py\<close>\<close>

text \<open>
  The model's numbers are Python floats (the constructor's docstring types every
  parameter as \<open>float\<close>) and numpy float arrays. They are embedded as real numbers, and
  every operation computes the exact real result: rounding is left out, and so is the
  finite range of a float. Python's \<open>**\<close> raises \<open>OverflowError\<close> when the magnitude of
  the result exceeds the largest float and returns \<open>0.0\<close> when it falls below the smallest;
  the embedding has neither, so a statement about a power that can leave the range of the
  floats carries that range as a hypothesis. What the operations do outside the reals is
  kept: Python raises \<open>ZeroDivisionError\<close> on a division by zero and on a zero base with a
  negative exponent, and answers a negative base with a fractional exponent with a complex
  number; numpy raises nothing and answers \<open>inf\<close> and \<open>nan\<close> instead.
\<close>

datatype pyerror = ZeroDivisionError

datatype pyval = Float real | Cplx complex




text \<open>\<open>x / y\<close> on Python floats.\<close>

definition py_truediv :: "real \<Rightarrow> real \<Rightarrow> pyerror + real" where
  "py_truediv x y = (if y = 0 then Inl ZeroDivisionError else Inr (x / y))"

text \<open>
  \<open>x ** y\<close> on Python floats, in the order of the interpreter's checks: a zero exponent
  gives 1 for every base; a zero base raises for a negative exponent and gives 0
  otherwise; a negative base with a non-integral exponent is handed to the complex power,
  which works in polar form (modulus \<open>|x| ** y\<close>, phase \<open>pi * y\<close>).
\<close>

definition py_pow :: "real \<Rightarrow> real \<Rightarrow> pyerror + pyval" where
  "py_pow x y =
     (if y = 0 then Inr (Float 1)
      else if x = 0 then (if y < 0 then Inl ZeroDivisionError else Inr (Float 0))
      else if x < 0 \<and> y \<noteq> of_int \<lfloor>y\<rfloor> then Inr (Cplx (rcis (\<bar>x\<bar> powr y) (pi * y)))
      else if x < 0 then Inr (Float (x powi \<lfloor>y\<rfloor>))
      else Inr (Float (x powr y)))"

text \<open>\<open>a * v\<close> and \<open>v - b\<close> with a float on one side: a complex operand makes the result complex.\<close>

fun py_mul :: "real \<Rightarrow> pyval \<Rightarrow> pyval" where
  "py_mul a (Float b) = Float (a * b)"
| "py_mul a (Cplx z) = Cplx (of_real a * z)"

fun py_sub :: "pyval \<Rightarrow> real \<Rightarrow> pyval" where
  "py_sub (Float a) b = Float (a - b)"
| "py_sub (Cplx z) b = Cplx (z - of_real b)"

text \<open>An element of a numpy float array: a finite number, an infinity or not-a-number.\<close>

datatype npfloat = Fin real | PosInf | NegInf | NaN

text \<open>
  One element of \<open>array ** y\<close>: the same cases as \<open>py_pow\<close>, with \<open>inf\<close> where Python
  raises and \<open>nan\<close> where Python turns complex.
\<close>

definition np_power :: "real \<Rightarrow> real \<Rightarrow> npfloat" where
  "np_power x y =
     (if y = 0 then Fin 1
      else if x = 0 then (if y < 0 then PosInf else Fin 0)
      else if x < 0 \<and> y \<noteq> of_int \<lfloor>y\<rfloor> then NaN
      else if x < 0 then Fin (x powi \<lfloor>y\<rfloor>)
      else Fin (x powr y))"

text \<open>One element of \<open>a * array\<close> for a Python float \<open>a\<close>.\<close>

fun np_multiply :: "real \<Rightarrow> npfloat \<Rightarrow> npfloat" where
  "np_multiply a (Fin b) = Fin (a * b)"
| "np_multiply a PosInf = (if 0 < a then PosInf else if a < 0 then NegInf else NaN)"
| "np_multiply a NegInf = (if 0 < a then NegInf else if a < 0 then PosInf else NaN)"
| "np_multiply a NaN = NaN"

section \<open>The class \<open>SolowModel\<close>\<close>

record SolowModel =
  s :: real
  delta :: real
  n :: real
  g :: real
  alpha :: real
  lambda_factor :: real

text \<open>\<open>__init__\<close>: the five arguments are stored as given, then the dilution rate is derived.\<close>

definition SolowModel_init :: "real \<Rightarrow> real \<Rightarrow> real \<Rightarrow> real \<Rightarrow> real \<Rightarrow> SolowModel" where
  "SolowModel_init s0 delta0 n0 g0 alpha0 =
     \<lparr>s = s0, delta = delta0, n = n0, g = g0, alpha = alpha0,
      lambda_factor = n0 + g0 + delta0\<rparr>"

text \<open>\<open>production\<close> on a float: \<open>k ** self.alpha\<close>.\<close>

definition production :: "SolowModel \<Rightarrow> real \<Rightarrow> pyerror + pyval" where
  "production self k = py_pow k (alpha self)"

text \<open>\<open>production\<close> on a numpy array: the power is taken element by element.\<close>

definition production_array :: "SolowModel \<Rightarrow> real list \<Rightarrow> npfloat list" where
  "production_array self k_values = map (\<lambda>k. np_power k (alpha self)) k_values"

text \<open>\<open>capital_accumulation\<close>: \<open>self.s * self.production(k) - self.lambda_factor * k\<close>.\<close>

definition capital_accumulation :: "SolowModel \<Rightarrow> real \<Rightarrow> pyerror + pyval" where
  "capital_accumulation self k =
     (case production self k of
        Inl e \<Rightarrow> Inl e
      | Inr f \<Rightarrow> Inr (py_sub (py_mul (s self) f) (lambda_factor self * k)))"

text \<open>
  \<open>steady_state\<close>: \<open>(self.s / self.lambda_factor) ** (1 / (1 - self.alpha))\<close>. The base is
  evaluated first, then the exponent, then the power; each of the three can raise.
\<close>

definition steady_state :: "SolowModel \<Rightarrow> pyerror + pyval" where
  "steady_state self =
     (case py_truediv (s self) (lambda_factor self) of
        Inl e \<Rightarrow> Inl e
      | Inr b \<Rightarrow>
          (case py_truediv 1 (1 - alpha self) of
             Inl e \<Rightarrow> Inl e
           | Inr x \<Rightarrow> py_pow b x))"

text \<open>\<open>plot_phase_data\<close> on a numpy array: the investment curve and the break-even line.\<close>

definition plot_phase_data :: "SolowModel \<Rightarrow> real list \<Rightarrow> npfloat list \<times> npfloat list" where
  "plot_phase_data self k_values =
     (let invest = map (np_multiply (s self)) (production_array self k_values);
          break_even = map (\<lambda>k. Fin (lambda_factor self * k)) k_values
      in (invest, break_even))"

section \<open>Calls on a model object, and the slider callback\<close>

text \<open>
  A call of a method on a model object yields the method's result and the object as it is
  after the call. \<open>__init__\<close> is the only place of the class that assigns to an attribute of
  \<open>self\<close>; the four methods only read them, so each leaves the object as it found it.
\<close>

datatype method_call =
    Production real
  | Production_array "real list"
  | Capital_accumulation real
  | Steady_state
  | Plot_phase_data "real list"

datatype method_result =
    Scalar "pyerror + pyval"
  | Array "npfloat list"
  | Curves "npfloat list \<times> npfloat list"

fun call_method :: "SolowModel \<Rightarrow> method_call \<Rightarrow> method_result \<times> SolowModel" where
  "call_method self (Production k) = (Scalar (production self k), self)"
| "call_method self (Production_array k_values) = (Array (production_array self k_values), self)"
| "call_method self (Capital_accumulation k) = (Scalar (capital_accumulation self k), self)"
| "call_method self Steady_state = (Scalar (steady_state self), self)"
| "call_method self (Plot_phase_data k_values) = (Curves (plot_phase_data self k_values), self)"

text \<open>The object after a sequence of calls, each made on the object the previous one left.\<close>

fun call_methods :: "SolowModel \<Rightarrow> method_call list \<Rightarrow> SolowModel" where
  "call_methods self [] = self"
| "call_methods self (c # cs) = call_methods (snd (call_method self c)) cs"

text \<open>The current values of the five sliders of \<open>interactive_phase_diagram\<close>.\<close>

record sliders =
  s_slider :: real
  delta_slider :: real
  n_slider :: real
  g_slider :: real
  alpha_slider :: real

text \<open>
  The slider callback \<open>update\<close> reads the five slider values and builds \<open>new_model\<close> from
  them with the constructor; the object built before stays as it is. Its drawing calls are
  not part of the model.
\<close>

definition update_new_model :: "sliders \<Rightarrow> SolowModel" where
  "update_new_model sl =
     SolowModel_init (s_slider sl) (delta_slider sl) (n_slider sl) (g_slider sl) (alpha_slider sl)"

section \<open>Auxiliary facts\<close>


lemma production_float:
  assumes "0 \<le> k" and "k = 0 \<longrightarrow> 0 \<le> alpha p"
  shows "production p k = Inr (Float (if alpha p = 0 then 1 else k powr alpha p))"
  using assms by (auto simp add: production_def py_pow_def)

lemma np_power_float:
  assumes "0 \<le> k" and "k = 0 \<longrightarrow> 0 \<le> a"
  shows "np_power k a = Fin (if a = 0 then 1 else k powr a)"
  using assms by (auto simp add: np_power_def)



text \<open>No method changes the object it is called on, however many calls are made.\<close>

lemma call_method_self: "snd (call_method m c) = m"
  by (cases c) simp_all

lemma call_methods_self: "call_methods m cs = m"
  by (induction cs arbitrary: m) (simp_all add: call_method_self)

section \<open>Errors of \<open>steady_state\<close> and \<open>production\<close>\<close>

text \<open>
  C1, as the specification states it: every parameter set with a dilution rate
  \<open>lambda_factor \<le> 0\<close> makes \<open>steady_state\<close> raise. The class has no check of the
  dilution rate. With \<open>s = 0.5\<close>, \<open>delta = -0.25\<close>, \<open>n = g = 0\<close> and \<open>alpha = 0.5\<close> the rate is
  negative, the base is \<open>-2.0\<close>, the exponent is \<open>2.0\<close>, and the call returns \<open>4.0\<close>.
\<close>

theorem steady_state_negative_dilution_returns:
  "lambda_factor (SolowModel_init (1/2) (-(1/4)) 0 0 (1/2)) \<le> 0
   \<and> steady_state (SolowModel_init (1/2) (-(1/4)) 0 0 (1/2)) = Inr (Float 4)"
  by (simp add: SolowModel_init_def steady_state_def py_truediv_def py_pow_def)

text \<open>
  C1, amended: every parameter set whose dilution rate is exactly zero makes
  \<open>steady_state\<close> raise Python's \<open>ZeroDivisionError\<close>, from the division \<open>s / lambda_factor\<close>,
  whatever the other parameters are.
\<close>

theorem steady_state_zero_dilution_raises:
  "lambda_factor p = 0 \<Longrightarrow> steady_state p = Inl ZeroDivisionError"
  by (simp add: steady_state_def py_truediv_def)

text \<open>The degenerate scenario \<open>delta = n = g = 0\<close>.\<close>

theorem steady_state_zero_dilution_raises_witness:
  "lambda_factor (SolowModel_init (3/10) 0 0 0 (33/100)) = 0
   \<and> steady_state (SolowModel_init (3/10) 0 0 0 (33/100)) = Inl ZeroDivisionError"
  using steady_state_zero_dilution_raises [of "SolowModel_init (3/10) 0 0 0 (33/100)"]
  by (simp add: SolowModel_init_def)

text \<open>
  C2, as the specification states it: every capital share outside the open interval
  \<open>(0, 1)\<close> is reported as an error at construction or at the first use. With
  \<open>alpha = 2\<close> the constructor keeps the value, \<open>production(3)\<close> returns \<open>9\<close> and
  \<open>steady_state()\<close> returns \<open>(0.5 / 0.25) ** (-1) = 0.5\<close>: no error reaches the caller.
\<close>

theorem alpha_two_accepted:
  "\<not> (0 < (2::real) \<and> (2::real) < 1)
   \<and> alpha (SolowModel_init (1/2) (1/4) 0 0 2) = 2
   \<and> production (SolowModel_init (1/2) (1/4) 0 0 2) 3 = Inr (Float 9)
   \<and> steady_state (SolowModel_init (1/2) (1/4) 0 0 2) = Inr (Float (1/2))"
  by (simp add: SolowModel_init_def steady_state_def production_def py_truediv_def py_pow_def
      powr_minus)

text \<open>
  C2, amended: the constructor accepts every capital share and stores it as given, never
  corrected. An error reaches the caller at the first use as Python's
  \<open>ZeroDivisionError\<close>: from \<open>steady_state\<close> when \<open>alpha = 1\<close>, and from \<open>production(0)\<close> when
  \<open>alpha < 0\<close>.
\<close>

theorem alpha_stored_unchecked:
  "alpha (SolowModel_init s0 d0 n0 g0 a0) = a0
   \<and> (a0 = 1 \<longrightarrow> steady_state (SolowModel_init s0 d0 n0 g0 a0) = Inl ZeroDivisionError)
   \<and> (a0 < 0 \<longrightarrow> production (SolowModel_init s0 d0 n0 g0 a0) 0 = Inl ZeroDivisionError)"
  by (simp add: SolowModel_init_def steady_state_def production_def py_truediv_def py_pow_def)

theorem alpha_stored_unchecked_witness:
  "steady_state (SolowModel_init (1/2) (1/4) 0 0 1) = Inl ZeroDivisionError
   \<and> production (SolowModel_init (1/2) (1/4) 0 0 (-1)) 0 = Inl ZeroDivisionError"
  using alpha_stored_unchecked [of "1/2" "1/4" 0 0 1]
    alpha_stored_unchecked [of "1/2" "1/4" 0 0 "-1"]
  by simp

section \<open>The closed form of the steady state\<close>




section \<open>Production, accumulation and the phase curves\<close>



text \<open>
  C6: for a capital share in \<open>(0, 1)\<close> and a capital level \<open>k \<ge> 0\<close>, \<open>production(k)\<close> is the
  real power \<open>k ** alpha\<close>; \<open>production(0)\<close> is 0 and \<open>production(1)\<close> is 1. On an array of
  capital levels the result has the array's length and holds, position by position, the
  power of the element at that position.
\<close>

theorem production_power:
  assumes "0 < alpha p" and "alpha p < 1"
  shows "(0 \<le> k \<longrightarrow> production p k = Inr (Float (k powr alpha p)))
    \<and> production p 0 = Inr (Float 0) \<and> production p 1 = Inr (Float 1)
    \<and> length (production_array p ks) = length ks
    \<and> (\<forall>i<length ks. 0 \<le> ks ! i \<longrightarrow> production_array p ks ! i = Fin (ks ! i powr alpha p))
    \<and> ((\<forall>x\<in>set ks. 0 \<le> x) \<longrightarrow> production_array p ks = map (\<lambda>x. Fin (x powr alpha p)) ks)"
  using assms by (simp add: production_float production_array_def np_power_float)

theorem production_power_witness:
  "production (SolowModel_init (1/2) (1/4) 0 0 (1/2)) 4 = Inr (Float 2)
   \<and> production_array (SolowModel_init (1/2) (1/4) 0 0 (1/2)) [0, 1, 4] = [Fin 0, Fin 1, Fin 2]"
  using production_power [of "SolowModel_init (1/2) (1/4) 0 0 (1/2)" 4 "[0, 1, 4]"]
  by (simp add: SolowModel_init_def powr_half_sqrt)

text \<open>
  C7: for every model and every array of \<open>m\<close> capital levels, \<open>plot_phase_data\<close> returns two
  arrays of length \<open>m\<close> each (two empty arrays for the empty array). At every index the
  investment value is \<open>s\<close> times the production of the capital level at that index, and the
  break-even value is \<open>lambda_factor\<close> times that capital level.
\<close>

theorem plot_phase_data_curves:
  "plot_phase_data p [] = ([], [])
   \<and> length (fst (plot_phase_data p ks)) = length ks
   \<and> length (snd (plot_phase_data p ks)) = length ks
   \<and> (\<forall>i<length ks.
        [fst (plot_phase_data p ks) ! i] = map (np_multiply (s p)) (production_array p [ks ! i])
        \<and> (\<forall>y. production p (ks ! i) = Inr (Float y) \<longrightarrow>
              fst (plot_phase_data p ks) ! i = Fin (s p * y))
        \<and> snd (plot_phase_data p ks) ! i = Fin (lambda_factor p * ks ! i))"
  by (auto simp add: plot_phase_data_def production_array_def production_def py_pow_def
      np_power_def split: if_splits)

theorem plot_phase_data_curves_witness:
  "production (SolowModel_init (1/2) (1/4) 0 0 (1/2)) ([0, 1, 4] ! 2) = Inr (Float 2)
   \<and> fst (plot_phase_data (SolowModel_init (1/2) (1/4) 0 0 (1/2)) [0, 1, 4]) ! 2 = Fin 1
   \<and> snd (plot_phase_data (SolowModel_init (1/2) (1/4) 0 0 (1/2)) [0, 1, 4]) ! 2 = Fin 1"
  using plot_phase_data_curves [of "SolowModel_init (1/2) (1/4) 0 0 (1/2)" "[0, 1, 4]"]
  by (simp add: SolowModel_init_def production_def py_pow_def powr_half_sqrt)



section \<open>The derived dilution rate\<close>

text \<open>
  C9: the constructor stores the five parameters as given and sets \<open>lambda_factor\<close> to
  \<open>n + g + delta\<close>. No method call changes the object, so after any sequence of calls the
  object is the constructed one and \<open>lambda_factor\<close> is still the sum of its three inputs.
  The slider callback realises a parameter change by constructing a new object, whose
  \<open>lambda_factor\<close> is the sum of the new slider values.
\<close>

theorem lambda_factor_invariant:
  "lambda_factor (SolowModel_init s0 d0 n0 g0 a0) = n0 + g0 + d0
   \<and> s (SolowModel_init s0 d0 n0 g0 a0) = s0
   \<and> delta (SolowModel_init s0 d0 n0 g0 a0) = d0
   \<and> n (SolowModel_init s0 d0 n0 g0 a0) = n0
   \<and> g (SolowModel_init s0 d0 n0 g0 a0) = g0
   \<and> alpha (SolowModel_init s0 d0 n0 g0 a0) = a0
   \<and> snd (call_method m c) = m
   \<and> call_methods (SolowModel_init s0 d0 n0 g0 a0) cs = SolowModel_init s0 d0 n0 g0 a0
   \<and> lambda_factor (call_methods (SolowModel_init s0 d0 n0 g0 a0) cs)
       = n (call_methods (SolowModel_init s0 d0 n0 g0 a0) cs)
         + g (call_methods (SolowModel_init s0 d0 n0 g0 a0) cs)
         + delta (call_methods (SolowModel_init s0 d0 n0 g0 a0) cs)
   \<and> update_new_model sl
       = SolowModel_init (s_slider sl) (delta_slider sl) (n_slider sl) (g_slider sl)
           (alpha_slider sl)
   \<and> lambda_factor (update_new_model sl) = n_slider sl + g_slider sl + delta_slider sl"
  by (simp add: call_method_self call_methods_self update_new_model_def)
    (simp add: SolowModel_init_def)

text \<open>The initial parameters of the diagram, after a steady-state call and a curve call.\<close>

theorem lambda_factor_invariant_witness:
  "lambda_factor (call_methods (SolowModel_init (3/10) (1/20) (1/50) (1/50) (33/100))
      [Steady_state, Plot_phase_data [0, 1]]) = 9/100"
  using lambda_factor_invariant [of "3/10" "1/20" "1/50" "1/50" "33/100" _ _
      "[Steady_state, Plot_phase_data [0, 1]]"]
  by (simp add: SolowModel_init_def)

end
